theory Spec2Isabelle
  imports Complex_Main
begin

section \<open>Strings as Python sees them\<close>

text \<open>
  A Python \<open>str\<close> is modelled as a \<open>string\<close>: a list of code points below 256.
  On these code points \<open>str.isspace\<close>, \<open>str.lower\<close> and the \<open>\\d\<close> and \<open>\\s\<close> classes of
  \<open>re\<close> are the functions below.
\<close>

definition isspace :: "char \<Rightarrow> bool" where
  "isspace c =
     (let n = (of_char c :: nat)
      in (9 \<le> n \<and> n \<le> 13) \<or> (28 \<le> n \<and> n \<le> 32) \<or> n = 133 \<or> n = 160)"

definition isdigit :: "char \<Rightarrow> bool" where
  "isdigit c = (let n = (of_char c :: nat) in 48 \<le> n \<and> n \<le> 57)"

definition lower_char :: "char \<Rightarrow> char" where
  "lower_char c =
     (let n = (of_char c :: nat)
      in if (65 \<le> n \<and> n \<le> 90) \<or> (192 \<le> n \<and> n \<le> 222 \<and> n \<noteq> 215)
         then char_of (n + 32) else c)"

definition lower :: "string \<Rightarrow> string" where
  "lower s = map lower_char s"

definition strip :: "string \<Rightarrow> string" where
  "strip s = rev (dropWhile isspace (rev (dropWhile isspace s)))"

text \<open>\<open>startswith k s\<close>: \<open>s\<close> begins with \<open>k\<close>; \<open>contains k s\<close> is Python's \<open>k in s\<close>.\<close>

fun startswith :: "string \<Rightarrow> string \<Rightarrow> bool" where
  "startswith [] s = True"
| "startswith (k # ks) [] = False"
| "startswith (k # ks) (c # cs) = (k = c \<and> startswith ks cs)"

fun contains :: "string \<Rightarrow> string \<Rightarrow> bool" where
  "contains k [] = (k = [])"
| "contains k (c # cs) = (startswith k (c # cs) \<or> contains k cs)"

section \<open>scrape_pricing.py: the tag-based extractor\<close>

text \<open>
  \<open>PricingParser\<close> subclasses the library's \<open>HTMLParser\<close>, whose \<open>feed\<close> turns markup into
  calls of the three handlers. The calls are the events below; a start tag carries its
  attribute list, where an attribute written without a value has the value \<open>None\<close>.
\<close>

text \<open>
  The exceptions \<open>scrape_pricing_page\<close> can catch, each with its \<open>str\<close>: one raised by the
  fetch, one raised by the library inside \<open>feed\<close> (an \<open>AssertionError\<close> on a marked section
  it does not know, for one), and the \<open>AttributeError\<close> of \<open>handle_starttag\<close>.
\<close>

datatype exn = FetchError string | FeedError string | AttributeError string

fun str_exn :: "exn \<Rightarrow> string" where
  "str_exn (FetchError m) = m"
| "str_exn (FeedError m) = m"
| "str_exn (AttributeError m) = m"

type_synonym attrs = "(string \<times> string option) list"

datatype event = StartTag string attrs | EndTag string | Data string

record parser =
  in_price :: bool
  prices :: "string list"
  current_text :: string

definition init_parser :: parser where
  "init_parser = \<lparr>in_price = False, prices = [], current_text = []\<rparr>"

text \<open>\<open>dict(attrs).get(key, default)\<close>: of two attributes of one name the later one wins.\<close>

definition attrs_get :: "attrs \<Rightarrow> string \<Rightarrow> string option \<Rightarrow> string option" where
  "attrs_get as key dflt = (case map_of (rev as) key of None \<Rightarrow> dflt | Some v \<Rightarrow> v)"

definition price_keywords :: "string list" where
  "price_keywords = [''price'', ''cost'', ''amount'', ''plan'', ''tier'']"

definition none_lower_msg :: string where
  "none_lower_msg =
     [CHR 0x27] @ ''NoneType'' @ [CHR 0x27] @ '' object has no attribute ''
       @ [CHR 0x27] @ ''lower'' @ [CHR 0x27]"

text \<open>What the library's \<open>feed\<close> says when it raises on \<open><![foo[bar]]>\<close>.\<close>

definition marked_section_msg :: string where
  "marked_section_msg =
     ''unknown status keyword '' @ [CHR 0x27] @ ''foo'' @ [CHR 0x27]
       @ '' in marked section''"

definition handle_starttag :: "string \<Rightarrow> attrs \<Rightarrow> parser \<Rightarrow> exn + parser" where
  "handle_starttag tag as p =
     (case attrs_get as ''class'' (Some []) of
        None \<Rightarrow> Inl (AttributeError none_lower_msg)
      | Some class_name \<Rightarrow>
          if list_ex (\<lambda>keyword. contains keyword (lower class_name)) price_keywords
          then Inr (p\<lparr>in_price := True\<rparr>)
          else Inr p)"

definition handle_endtag :: "string \<Rightarrow> parser \<Rightarrow> parser" where
  "handle_endtag tag p =
     (let p1 = (if in_price p \<and> strip (current_text p) \<noteq> []
                then p\<lparr>prices := prices p @ [strip (current_text p)]\<rparr> else p)
      in p1\<lparr>in_price := False, current_text := []\<rparr>)"

definition handle_data :: "string \<Rightarrow> parser \<Rightarrow> parser" where
  "handle_data data p =
     (if in_price p then p\<lparr>current_text := current_text p @ data\<rparr> else p)"

fun feed :: "event list \<Rightarrow> parser \<Rightarrow> exn + parser" where
  "feed [] p = Inr p"
| "feed (StartTag tag as # es) p =
     (case handle_starttag tag as p of Inl e \<Rightarrow> Inl e | Inr p' \<Rightarrow> feed es p')"
| "feed (EndTag tag # es) p = feed es (handle_endtag tag p)"
| "feed (Data d # es) p = feed es (handle_data d p)"

text \<open>
  \<open>parser.feed(html)\<close>: the library's tokenizer makes the calls one after the other and
  may itself raise after the last of them. \<open>tokenize\<close> gives the calls it makes on a page
  and the exception it then raises, if any. An exception of a handler comes first.
\<close>

type_synonym tokenizer = "string \<Rightarrow> event list \<times> exn option"

definition feed_html :: "tokenizer \<Rightarrow> string \<Rightarrow> exn + parser" where
  "feed_html tokenize html =
     (case tokenize html of
        (events, raised) \<Rightarrow>
          (case feed events init_parser of
             Inl e \<Rightarrow> Inl e
           | Inr p \<Rightarrow> (case raised of None \<Rightarrow> Inr p | Some e \<Rightarrow> Inl e)))"

text \<open>The calls \<open>feed\<close> makes for \<open><span class="price"><b>$10</b></span>\<close>.\<close>

definition nested_markup :: "event list" where
  "nested_markup =
     [StartTag ''span'' [(''class'', Some ''price'')], StartTag ''b'' [],
      Data ''$10'', EndTag ''b'', EndTag ''span'']"

section \<open>scrape_pricing.py: the regex extractor\<close>

text \<open>
  The three patterns, written with the constructs they use. \<open>Lit\<close> is a literal compared
  without regard to case (every pattern is compiled with \<open>re.IGNORECASE\<close>), \<open>Digit\<close> is
  \<open>\\d\<close>, \<open>Digits1\<close> is \<open>\\d+\<close>, \<open>Spaces0\<close> is \<open>\\s*\<close>, \<open>Opt\<close> is a greedy \<open>(?:...)?\<close>.
\<close>

datatype re = Lit string | Digit | Digits1 | Spaces0 | Seq re re | Alt re re | Opt re

definition startswith_ci :: "string \<Rightarrow> string \<Rightarrow> bool" where
  "startswith_ci l s = startswith (lower l) (lower (take (length l) s))"

text \<open>
  \<open>many0 P s\<close> lists what may remain of \<open>s\<close> after a greedy run of characters in \<open>P\<close>,
  the longest run first; \<open>many1\<close> asks for one character at least.
\<close>

fun many0 :: "(char \<Rightarrow> bool) \<Rightarrow> string \<Rightarrow> string list" where
  "many0 P [] = [[]]"
| "many0 P (c # cs) = (if P c then many0 P cs @ [c # cs] else [c # cs])"

fun many1 :: "(char \<Rightarrow> bool) \<Rightarrow> string \<Rightarrow> string list" where
  "many1 P [] = []"
| "many1 P (c # cs) = (if P c then many0 P cs else [])"

text \<open>
  \<open>rests r s\<close>: the remainders of \<open>s\<close> after each way of matching \<open>r\<close> at its start, in
  the order in which the backtracking matcher tries them. The first one is the match.
\<close>

fun rests :: "re \<Rightarrow> string \<Rightarrow> string list" where
  "rests (Lit l) s = (if startswith_ci l s then [drop (length l) s] else [])"
| "rests Digit s = (case s of [] \<Rightarrow> [] | c # cs \<Rightarrow> if isdigit c then [cs] else [])"
| "rests Digits1 s = many1 isdigit s"
| "rests Spaces0 s = many0 isspace s"
| "rests (Seq a b) s = concat (map (rests b) (rests a s))"
| "rests (Alt a b) s = rests a s @ rests b s"
| "rests (Opt a) s = rests a s @ [s]"

definition match_at :: "re \<Rightarrow> string \<Rightarrow> string option" where
  "match_at r s =
     (case rests r s of [] \<Rightarrow> None | rest # _ \<Rightarrow> Some (take (length s - length rest) s))"

text \<open>
  \<open>re.findall\<close>: the matches from left to right, none overlapping another. \<open>skip\<close> counts
  the characters of the last match still to step over. No pattern here matches the
  empty string, so the end of the text yields nothing.
\<close>

fun findall_from :: "re \<Rightarrow> nat \<Rightarrow> string \<Rightarrow> string list" where
  "findall_from r skip [] = []"
| "findall_from r skip (c # cs) =
     (if 0 < skip then findall_from r (skip - 1) cs
      else case match_at r (c # cs) of
             None \<Rightarrow> findall_from r 0 cs
           | Some m \<Rightarrow> m # findall_from r (length m - 1) cs)"

definition findall :: "re \<Rightarrow> string \<Rightarrow> string list" where
  "findall r s = findall_from r 0 s"

definition dollar_amount :: re where
  "dollar_amount = Seq (Lit ''$'') (Seq Digits1 (Opt (Seq (Lit ''.'') (Seq Digit Digit))))"

definition price_patterns :: "re list" where
  "price_patterns =
     [Seq dollar_amount (Opt (Seq (Lit ''/mo'') (Opt (Lit ''nth'')))),
      Seq dollar_amount
        (Seq Spaces0 (Seq (Alt (Lit ''per'') (Lit ''/''))
          (Seq Spaces0
            (Alt (Lit ''month'') (Alt (Lit ''year'') (Alt (Lit ''team'') (Lit ''user''))))))),
      Alt (Lit ''free'') (Alt (Lit ''Free'') (Lit ''FREE''))]"

fun regex_loop :: "re list \<Rightarrow> string \<Rightarrow> string list \<Rightarrow> string list" where
  "regex_loop [] html regex_prices = regex_prices"
| "regex_loop (pattern # ps) html regex_prices =
     regex_loop ps html (regex_prices @ findall pattern html)"

section \<open>scrape_pricing.py: scrape_pricing_page\<close>

text \<open>
  \<open>list(set(xs))\<close>: a set keeps one copy of each element and iterates in an order that
  its hashing decides. The model keeps the elements in iteration order; adding an
  element already there changes nothing, and a new one lands where \<open>slot\<close> says.
  Any order of the distinct elements is the result of some \<open>slot\<close>.
\<close>

type_synonym slot = "string \<Rightarrow> string list \<Rightarrow> nat"

definition set_add :: "slot \<Rightarrow> string list \<Rightarrow> string \<Rightarrow> string list" where
  "set_add slot tbl x =
     (if x \<in> set tbl then tbl
      else take (slot x tbl) tbl @ [x] @ drop (slot x tbl) tbl)"

definition list_of_set :: "slot \<Rightarrow> string list \<Rightarrow> string list" where
  "list_of_set slot xs = foldl (set_add slot) [] xs"

text \<open>The result is a dict; its values are strings, lists of strings, integers, booleans.\<close>

datatype val = VStr string | VList "string list" | VInt nat | VBool bool

type_synonym result = "(string \<times> val) list"

definition failure :: "string \<Rightarrow> exn \<Rightarrow> result" where
  "failure url e =
     [(''url'', VStr url), (''prices_found'', VList []),
      (''error'', VStr (str_exn e)), (''success'', VBool False)]"

text \<open>
  \<open>fetch\<close> stands for building the request, opening it and reading and decoding the
  body: it gives the page or the exception raised on the way.
\<close>

definition scrape_pricing_page ::
  "(string \<Rightarrow> exn + string) \<Rightarrow> tokenizer \<Rightarrow> slot \<Rightarrow> string \<Rightarrow> result" where
  "scrape_pricing_page fetch tokenize slot url =
     (case fetch url of
        Inl e \<Rightarrow> failure url e
      | Inr html \<Rightarrow>
          (case feed_html tokenize html of
             Inl e \<Rightarrow> failure url e
           | Inr p \<Rightarrow>
               let regex_prices = regex_loop price_patterns html [];
                   all_prices = list_of_set slot (prices p @ regex_prices)
               in [(''url'', VStr url), (''prices_found'', VList all_prices),
                   (''raw_html_length'', VInt (length html)), (''success'', VBool True)]))"

section \<open>scrape_reviews.py: scrape_apple_reviews\<close>

text \<open>
  What \<open>json.loads\<close> returns. \<open>JObj\<close> lists the items of a dict, each key once. A float is
  a real number, or one of the values \<open>NaN\<close>, \<open>Infinity\<close>, \<open>-Infinity\<close> that the decoder
  accepts.
\<close>

datatype json =
    JNull
  | JBool bool
  | JInt int
  | JFloat real
  | JNaN
  | JInfinity
  | JStr string
  | JArr "json list"
  | JObj "(string \<times> json) list"

datatype review_exn = Load_Error | Attribute_Error | Type_Error | Value_Error | Overflow_Error

definition bind :: "'e + 'a \<Rightarrow> ('a \<Rightarrow> 'e + 'b) \<Rightarrow> 'e + 'b" where
  "bind m f = (case m of Inl e \<Rightarrow> Inl e | Inr x \<Rightarrow> f x)"

text \<open>\<open>x.get(key, default)\<close>: only a dict has the method.\<close>

fun py_get :: "json \<Rightarrow> string \<Rightarrow> json \<Rightarrow> review_exn + json" where
  "py_get (JObj kvs) key dflt =
     Inr (case map_of kvs key of None \<Rightarrow> dflt | Some v \<Rightarrow> v)"
| "py_get _ key dflt = Inl Attribute_Error"

text \<open>
  \<open>int(s)\<close> for a string. The whitespace it drops at both ends is not that of
  \<open>str.strip\<close>: the four separators U+001C to U+001F stay and make the string invalid.
  A sign may lead, and the digits may be grouped by single underscores.
\<close>

definition int_space :: "char \<Rightarrow> bool" where
  "int_space c =
     (let n = (of_char c :: nat)
      in (9 \<le> n \<and> n \<le> 13) \<or> n = 32 \<or> n = 133 \<or> n = 160)"

definition int_strip :: "string \<Rightarrow> string" where
  "int_strip s = rev (dropWhile int_space (rev (dropWhile int_space s)))"

definition digit_val :: "char \<Rightarrow> nat" where
  "digit_val c = of_char c - 48"

fun digits_from :: "nat \<Rightarrow> string \<Rightarrow> nat option" where
  "digits_from acc [] = Some acc"
| "digits_from acc [c] = (if isdigit c then Some (10 * acc + digit_val c) else None)"
| "digits_from acc (c # d # ds) =
     (if isdigit c then digits_from (10 * acc + digit_val c) (d # ds)
      else if c = CHR ''_'' \<and> isdigit d then digits_from (10 * acc + digit_val d) ds
      else None)"

definition parse_nat :: "string \<Rightarrow> nat option" where
  "parse_nat s =
     (case s of [] \<Rightarrow> None
      | c # cs \<Rightarrow> if isdigit c then digits_from (digit_val c) cs else None)"

text \<open>
  The interpreter refuses a string of more digits than \<open>sys.get_int_max_str_digits()\<close>,
  here \<open>max_digits\<close>: 4300 unless the interpreter was started otherwise, 0 for no limit.
  Underscores do not count, leading zeros do, and up to 640 digits always pass.
\<close>

definition too_many_digits :: "nat \<Rightarrow> string \<Rightarrow> bool" where
  "too_many_digits max_digits s =
     (let digits = length (filter isdigit s)
      in 640 < digits \<and> 0 < max_digits \<and> max_digits < digits)"

definition int_of_str :: "nat \<Rightarrow> string \<Rightarrow> int option" where
  "int_of_str max_digits s =
     (case int_strip s of
        [] \<Rightarrow> None
      | c # cs \<Rightarrow>
          if c = CHR ''+'' then
            (if too_many_digits max_digits cs then None else map_option int (parse_nat cs))
          else if c = CHR ''-'' then
            (if too_many_digits max_digits cs then None
             else map_option (\<lambda>n. - int n) (parse_nat cs))
          else
            (if too_many_digits max_digits (c # cs) then None
             else map_option int (parse_nat (c # cs))))"

fun py_int :: "nat \<Rightarrow> json \<Rightarrow> review_exn + int" where
  "py_int max_digits (JInt n) = Inr n"
| "py_int max_digits (JBool b) = Inr (if b then 1 else 0)"
| "py_int max_digits (JFloat x) = Inr (if 0 \<le> x then \<lfloor>x\<rfloor> else \<lceil>x\<rceil>)"
| "py_int max_digits JNaN = Inl Value_Error"
| "py_int max_digits JInfinity = Inl Overflow_Error"
| "py_int max_digits (JStr s) =
     (case int_of_str max_digits s of None \<Rightarrow> Inl Value_Error | Some n \<Rightarrow> Inr n)"
| "py_int max_digits JNull = Inl Type_Error"
| "py_int max_digits (JArr xs) = Inl Type_Error"
| "py_int max_digits (JObj kvs) = Inl Type_Error"

text \<open>\<open>xs[:count]\<close>: a negative \<open>count\<close> counts from the end.\<close>

definition slice_to :: "'a list \<Rightarrow> int \<Rightarrow> 'a list" where
  "slice_to xs count =
     (if 0 \<le> count then take (nat count) xs
      else take (nat (int (length xs) + count)) xs)"

text \<open>
  \<open>for entry in entries[:count]\<close>: a list gives its first items, a string its first
  characters (each a string of length one), anything else cannot be sliced: the
  subscript raises, which \<open>Type_Error\<close> stands for.
\<close>

fun sliced_entries :: "json \<Rightarrow> int \<Rightarrow> review_exn + json list" where
  "sliced_entries (JArr es) count = Inr (slice_to es count)"
| "sliced_entries (JStr s) count = Inr (map (\<lambda>c. JStr [c]) (slice_to s count))"
| "sliced_entries _ count = Inl Type_Error"

text \<open>
  The body of the loop for an entry that is a dict with a \<open>content\<close> key: the review
  it appends, or the exception one of the five field expressions raises.
\<close>

definition normalize :: "nat \<Rightarrow> json \<Rightarrow> review_exn + json" where
  "normalize max_digits entry =
     bind (bind (py_get entry ''im:rating'' (JObj [])) (\<lambda>r. py_get r ''label'' (JInt 0)))
       (\<lambda>label. bind (py_int max_digits label)
       (\<lambda>rating. bind (bind (py_get entry ''title'' (JObj [])) (\<lambda>t. py_get t ''label'' (JStr [])))
       (\<lambda>title. bind (bind (py_get entry ''content'' (JObj [])) (\<lambda>c. py_get c ''label'' (JStr [])))
       (\<lambda>content. bind (bind (bind (py_get entry ''author'' (JObj []))
                                 (\<lambda>a. py_get a ''name'' (JObj [])))
                           (\<lambda>n. py_get n ''label'' (JStr [])))
       (\<lambda>author. bind (bind (py_get entry ''im:version'' (JObj []))
                           (\<lambda>v. py_get v ''label'' (JStr [])))
       (\<lambda>version.
          Inr (JObj [(''rating'', JInt rating), (''title'', title), (''content'', content),
                     (''author'', author), (''version'', version)])))))))"

fun has_content :: "json \<Rightarrow> bool" where
  "has_content (JObj kvs) = (''content'' \<in> fst ` set kvs)"
| "has_content _ = False"

fun normalize_loop :: "nat \<Rightarrow> json list \<Rightarrow> json list \<Rightarrow> review_exn + json list" where
  "normalize_loop max_digits [] reviews = Inr reviews"
| "normalize_loop max_digits (entry # es) reviews =
     (if has_content entry
      then (case normalize max_digits entry of
              Inl e \<Rightarrow> Inl e
            | Inr review \<Rightarrow> normalize_loop max_digits es (reviews @ [review]))
      else normalize_loop max_digits es reviews)"

definition feed_url :: "string \<Rightarrow> string \<Rightarrow> string" where
  "feed_url country app_id =
     ''https://itunes.apple.com/'' @ country @ ''/rss/customerreviews/id='' @ app_id
       @ ''/sortBy=mostRecent/json''"

text \<open>\<open>data.get("feed", {}).get("entry", [])\<close>\<close>

definition feed_entries :: "json \<Rightarrow> review_exn + json" where
  "feed_entries data =
     bind (py_get data ''feed'' (JObj [])) (\<lambda>f. py_get f ''entry'' (JArr []))"

text \<open>
  The \<open>try\<close> block, and the function around it. \<open>load\<close> stands for opening the URL,
  reading the body and decoding the JSON. What the function prints is left out.
\<close>

definition scrape_body ::
  "nat \<Rightarrow> (string \<Rightarrow> review_exn + json) \<Rightarrow> string \<Rightarrow> string \<Rightarrow> int
     \<Rightarrow> review_exn + json list" where
  "scrape_body max_digits load app_id country count =
     bind (load (feed_url country app_id))
       (\<lambda>data. bind (feed_entries data)
       (\<lambda>entries. bind (sliced_entries entries count)
       (\<lambda>es. normalize_loop max_digits es [])))"

definition scrape_apple_reviews ::
  "nat \<Rightarrow> (string \<Rightarrow> review_exn + json) \<Rightarrow> string \<Rightarrow> string \<Rightarrow> int \<Rightarrow> json list" where
  "scrape_apple_reviews max_digits load app_id country count =
     (case scrape_body max_digits load app_id country count of
        Inl e \<Rightarrow> [] | Inr reviews \<Rightarrow> reviews)"

section \<open>scrape_reviews.py: analyze_reviews\<close>

text \<open>
  A review is a dict read with \<open>get\<close>: any of its keys may be missing. A rating is an
  integer, the other fields are strings.
\<close>

record review =
  rating :: "int option"
  title :: "string option"
  content :: "string option"
  author :: "string option"
  version :: "string option"

text \<open>
  \<open>average_rating\<close> is the integer \<open>0\<close> the dict starts with, or the float
  \<open>round(total_rating / len(reviews), 2)\<close>, kept as the two integers it is computed from.
\<close>

datatype number = PyInt int | Round2 int nat

record analysis =
  total_reviews :: nat
  average_rating :: number
  rating_distribution :: "(int \<times> nat) list"
  common_complaints :: "string list"
  common_praises :: "string list"
  feature_requests :: "string list"

definition get_rating :: "review \<Rightarrow> int \<Rightarrow> int" where
  "get_rating r dflt = (case rating r of None \<Rightarrow> dflt | Some v \<Rightarrow> v)"

definition get_content :: "review \<Rightarrow> string" where
  "get_content r = (case content r of None \<Rightarrow> [] | Some v \<Rightarrow> v)"

definition get_title :: "review \<Rightarrow> string" where
  "get_title r = (case title r of None \<Rightarrow> [] | Some v \<Rightarrow> v)"

definition bump :: "int \<Rightarrow> (int \<times> nat) list \<Rightarrow> (int \<times> nat) list" where
  "bump k d = map (\<lambda>(k', n). if k' = k then (k', n + 1) else (k', n)) d"

fun rating_loop :: "review list \<Rightarrow> int \<times> (int \<times> nat) list \<Rightarrow> int \<times> (int \<times> nat) list" where
  "rating_loop [] st = st"
| "rating_loop (r # rs) (total_rating, distribution) =
     (let rating = get_rating r 0
      in rating_loop rs
           (total_rating + rating,
            if rating \<in> fst ` set distribution then bump rating distribution
            else distribution))"

definition complaint_keywords :: "string list" where
  "complaint_keywords =
     [''slow'', ''crash'', ''bug'', ''expensive'', ''confusing'', ''difficult'', ''broken'',
      ''poor'', ''terrible'', ''worst'']"

definition praise_keywords :: "string list" where
  "praise_keywords =
     [''love'', ''great'', ''amazing'', ''easy'', ''best'', ''perfect'', ''excellent'',
      ''awesome'']"

definition feature_keywords :: "string list" where
  "feature_keywords =
     [''wish'', ''would be nice'', ''please add'', ''need'', ''should have'', ''missing'']"

definition haystack :: "review \<Rightarrow> string" where
  "haystack r = lower (get_content r @ '' '' @ get_title r)"

text \<open>The three inner loops: each stops at the first keyword that adds the review.\<close>

fun complaint_scan :: "string list \<Rightarrow> string \<Rightarrow> review \<Rightarrow> string list \<Rightarrow> string list" where
  "complaint_scan [] hay r complaints = complaints"
| "complaint_scan (keyword # ks) hay r complaints =
     (if contains keyword hay \<and> get_rating r 5 \<le> 3
      then complaints @ [take 200 (get_content r)]
      else complaint_scan ks hay r complaints)"

fun praise_scan :: "string list \<Rightarrow> string \<Rightarrow> review \<Rightarrow> string list \<Rightarrow> string list" where
  "praise_scan [] hay r praises = praises"
| "praise_scan (keyword # ks) hay r praises =
     (if contains keyword hay \<and> 4 \<le> get_rating r 0
      then praises @ [take 200 (get_content r)]
      else praise_scan ks hay r praises)"

fun feature_scan :: "string list \<Rightarrow> string \<Rightarrow> review \<Rightarrow> string list \<Rightarrow> string list" where
  "feature_scan [] hay r features = features"
| "feature_scan (keyword # ks) hay r features =
     (if contains keyword hay
      then features @ [take 200 (get_content r)]
      else feature_scan ks hay r features)"

type_synonym buckets = "string list \<times> string list \<times> string list"

definition review_step :: "review \<Rightarrow> buckets \<Rightarrow> buckets" where
  "review_step r st =
     (case st of (complaints, praises, features) \<Rightarrow>
        (complaint_scan complaint_keywords (haystack r) r complaints,
         praise_scan praise_keywords (haystack r) r praises,
         feature_scan feature_keywords (haystack r) r features))"

fun review_loop :: "review list \<Rightarrow> buckets \<Rightarrow> buckets" where
  "review_loop [] st = st"
| "review_loop (r # rs) st = review_loop rs (review_step r st)"

definition empty_analysis :: "nat \<Rightarrow> analysis" where
  "empty_analysis n =
     \<lparr>total_reviews = n, average_rating = PyInt 0,
      rating_distribution = [(1, 0), (2, 0), (3, 0), (4, 0), (5, 0)],
      common_complaints = [], common_praises = [], feature_requests = []\<rparr>"

definition analyze_reviews :: "review list \<Rightarrow> analysis" where
  "analyze_reviews reviews =
     (let a = empty_analysis (length reviews)
      in if reviews = [] then a
         else (case rating_loop reviews (0, rating_distribution a) of
                 (total_rating, distribution) \<Rightarrow>
           (case review_loop reviews ([], [], []) of
              (complaints, praises, features) \<Rightarrow>
                a\<lparr>rating_distribution := distribution,
                  average_rating := Round2 total_rating (length reviews),
                  common_complaints := take 10 complaints,
                  common_praises := take 10 praises,
                  feature_requests := take 10 features\<rparr>)))"

text \<open>
  The three conditions under which the specification says a review contributes, in its
  words: a keyword of the list occurs in the lowercased content and title, and for a
  complaint the rating is at most 3, for a praise it is at least 4.
\<close>

definition is_complaint :: "review \<Rightarrow> bool" where
  "is_complaint r =
     (list_ex (\<lambda>k. contains k (haystack r)) complaint_keywords \<and> get_rating r 5 \<le> 3)"

definition is_praise :: "review \<Rightarrow> bool" where
  "is_praise r =
     (list_ex (\<lambda>k. contains k (haystack r)) praise_keywords \<and> 4 \<le> get_rating r 0)"

definition is_feature_request :: "review \<Rightarrow> bool" where
  "is_feature_request r = list_ex (\<lambda>k. contains k (haystack r)) feature_keywords"

definition stored :: "review \<Rightarrow> string" where
  "stored r = take 200 (get_content r)"

section \<open>The tag-based extractor on nested markup\<close>

text \<open>
  C1. Every closing tag clears the flag and the collected text, whichever tag it closes.
  On \<open><span class="price"><b>$10</b></span>\<close> the inner \<open></b>\<close> records \<open>$10\<close>; the
  outer \<open></span>\<close> then finds the flag cleared and leaves the parser as it is, so the
  whole markup yields the one candidate \<open>$10\<close>.
\<close>

theorem endtag_resets_capture:
  "in_price (handle_endtag tag p) = False
   \<and> current_text (handle_endtag tag p) = []
   \<and> feed (take 4 nested_markup) init_parser
       = Inr \<lparr>in_price = False, prices = [''$10''], current_text = []\<rparr>
   \<and> handle_endtag ''span'' \<lparr>in_price = False, prices = [''$10''], current_text = []\<rparr>
       = \<lparr>in_price = False, prices = [''$10''], current_text = []\<rparr>
   \<and> feed nested_markup init_parser
       = Inr \<lparr>in_price = False, prices = [''$10''], current_text = []\<rparr>"
proof -
  have reset: "in_price (handle_endtag tag p) = False \<and> current_text (handle_endtag tag p) = []"
    by (simp add: handle_endtag_def Let_def)
  have inner: "feed (take 4 nested_markup) init_parser
       = Inr \<lparr>in_price = False, prices = [''$10''], current_text = []\<rparr>"
    by code_simp
  have outer: "handle_endtag ''span'' \<lparr>in_price = False, prices = [''$10''], current_text = []\<rparr>
       = \<lparr>in_price = False, prices = [''$10''], current_text = []\<rparr>"
    by (simp add: handle_endtag_def)
  have whole: "feed nested_markup init_parser
       = Inr \<lparr>in_price = False, prices = [''$10''], current_text = []\<rparr>"
    by code_simp
  from reset inner outer whole show ?thesis by blast
qed

section \<open>The regex extractor on a sample text\<close>

text \<open>
  C7. On the text \<open>Only $9.99/mo or go FREE\<close> the three patterns find \<open>$9.99/mo\<close> and
  \<open>FREE\<close>, each spelled as in the text.
\<close>

theorem regex_sample:
  "regex_loop price_patterns ''Only $9.99/mo or go FREE'' [] = [''$9.99/mo'', ''FREE'']"
  by code_simp

section \<open>The analysis of no reviews\<close>

text \<open>
  C5. For the empty list \<open>analyze_reviews\<close> returns the analysis it starts from:
  no reviews, average 0, the five buckets at 0, the three lists empty.
\<close>

theorem analyze_empty:
  "analyze_reviews [] =
     \<lparr>total_reviews = 0, average_rating = PyInt 0,
      rating_distribution = [(1, 0), (2, 0), (3, 0), (4, 0), (5, 0)],
      common_complaints = [], common_praises = [], feature_requests = []\<rparr>"
  by (simp add: analyze_reviews_def empty_analysis_def)

section \<open>The keyword loops of analyze_reviews\<close>

lemma complaint_scan_eq:
  "complaint_scan ks hay r acc =
     (if list_ex (\<lambda>k. contains k hay) ks \<and> get_rating r 5 \<le> 3 then acc @ [stored r] else acc)"
  by (induction ks) (auto simp: stored_def)

lemma praise_scan_eq:
  "praise_scan ks hay r acc =
     (if list_ex (\<lambda>k. contains k hay) ks \<and> 4 \<le> get_rating r 0 then acc @ [stored r] else acc)"
  by (induction ks) (auto simp: stored_def)

lemma feature_scan_eq:
  "feature_scan ks hay r acc =
     (if list_ex (\<lambda>k. contains k hay) ks then acc @ [stored r] else acc)"
  by (induction ks) (auto simp: stored_def)

lemma review_step_eq:
  "review_step r (c, p, f) =
     (if is_complaint r then c @ [stored r] else c,
      if is_praise r then p @ [stored r] else p,
      if is_feature_request r then f @ [stored r] else f)"
  by (simp add: review_step_def complaint_scan_eq praise_scan_eq feature_scan_eq
      is_complaint_def is_praise_def is_feature_request_def)

lemma review_loop_eq:
  "review_loop rs (c, p, f) =
     (c @ map stored (filter is_complaint rs),
      p @ map stored (filter is_praise rs),
      f @ map stored (filter is_feature_request rs))"
  by (induction rs arbitrary: c p f) (simp_all add: review_step_eq)

lemma analyze_lists:
  "common_complaints (analyze_reviews rs) = take 10 (map stored (filter is_complaint rs))"
  "common_praises (analyze_reviews rs) = take 10 (map stored (filter is_praise rs))"
  "feature_requests (analyze_reviews rs) = take 10 (map stored (filter is_feature_request rs))"
  by (cases "rating_loop rs (0, [(1, 0), (2, 0), (3, 0), (4, 0), (5, 0)])";
      simp add: analyze_reviews_def empty_analysis_def review_loop_eq Let_def)+

lemma no_rating_hits:
  "rating r = None \<Longrightarrow> \<not> is_complaint r"  "rating r = None \<Longrightarrow> \<not> is_praise r"
  by (simp_all add: is_complaint_def is_praise_def get_rating_def)

text \<open>
  C6. Each of the three lists of the analysis holds, for the first ten reviews that
  contribute to it, in the order of the input, the first 200 characters of the review's
  content; so none is longer than ten entries.
\<close>

theorem categorized_lists:
  "common_complaints (analyze_reviews rs)
     = take 10 (map (\<lambda>r. take 200 (get_content r)) (filter is_complaint rs))
   \<and> common_praises (analyze_reviews rs)
     = take 10 (map (\<lambda>r. take 200 (get_content r)) (filter is_praise rs))
   \<and> feature_requests (analyze_reviews rs)
     = take 10 (map (\<lambda>r. take 200 (get_content r)) (filter is_feature_request rs))
   \<and> length (common_complaints (analyze_reviews rs)) \<le> 10
   \<and> length (common_praises (analyze_reviews rs)) \<le> 10
   \<and> length (feature_requests (analyze_reviews rs)) \<le> 10"
proof -
  have st: "stored = (\<lambda>r. take 200 (get_content r))"
    by (rule ext) (simp add: stored_def)
  show ?thesis
    unfolding analyze_lists st by simp
qed

lemma default_rating_hits:
  "rating r = None \<Longrightarrow> is_complaint (r\<lparr>rating := Some 5\<rparr>) = is_complaint r"
  "rating r = None \<Longrightarrow> is_praise (r\<lparr>rating := Some 0\<rparr>) = is_praise r"
  by (simp_all add: is_complaint_def is_praise_def get_rating_def haystack_def
      get_content_def get_title_def)

lemma stored_rating_update: "stored (r\<lparr>rating := v\<rparr>) = stored r"
  by (simp add: stored_def get_content_def)

text \<open>
  C2. Let a review without a rating stand anywhere in the list given to
  \<open>analyze_reviews\<close>. The complaints of the analysis are those of the other reviews, and
  the same as if the review had the rating 5; the praises are those of the other
  reviews, and the same as if it had the rating 0. The feature requests hold its content,
  at its place among the contributors, exactly when a feature phrase occurs in it.
\<close>

theorem missing_rating_contributions:
  assumes "rating r = None"
  shows "common_complaints (analyze_reviews (pre @ r # post))
       = take 10 (map (\<lambda>x. take 200 (get_content x)) (filter is_complaint (pre @ post)))
   \<and> common_complaints (analyze_reviews (pre @ r # post))
       = common_complaints (analyze_reviews (pre @ r\<lparr>rating := Some 5\<rparr> # post))
   \<and> common_praises (analyze_reviews (pre @ r # post))
       = take 10 (map (\<lambda>x. take 200 (get_content x)) (filter is_praise (pre @ post)))
   \<and> common_praises (analyze_reviews (pre @ r # post))
       = common_praises (analyze_reviews (pre @ r\<lparr>rating := Some 0\<rparr> # post))
   \<and> feature_requests (analyze_reviews (pre @ r # post))
       = take 10 (map (\<lambda>x. take 200 (get_content x)) (filter is_feature_request pre)
                  @ (if is_feature_request r then [take 200 (get_content r)] else [])
                  @ map (\<lambda>x. take 200 (get_content x)) (filter is_feature_request post))"
proof -
  have st: "stored = (\<lambda>x. take 200 (get_content x))"
    by (rule ext) (simp add: stored_def)
  have five: "\<not> is_complaint (r\<lparr>rating := Some 5\<rparr>)"
    using assms by (simp add: default_rating_hits no_rating_hits)
  have zero: "\<not> is_praise (r\<lparr>rating := Some 0\<rparr>)"
    using assms by (simp add: default_rating_hits no_rating_hits)
  have c: "common_complaints (analyze_reviews (pre @ r # post))
       = take 10 (map stored (filter is_complaint (pre @ post)))"
    using assms by (simp add: analyze_lists no_rating_hits)
  have c5: "common_complaints (analyze_reviews (pre @ r\<lparr>rating := Some 5\<rparr> # post))
       = take 10 (map stored (filter is_complaint (pre @ post)))"
    using five by (simp add: analyze_lists)
  have p: "common_praises (analyze_reviews (pre @ r # post))
       = take 10 (map stored (filter is_praise (pre @ post)))"
    using assms by (simp add: analyze_lists no_rating_hits)
  have p0: "common_praises (analyze_reviews (pre @ r\<lparr>rating := Some 0\<rparr> # post))
       = take 10 (map stored (filter is_praise (pre @ post)))"
    using zero by (simp add: analyze_lists)
  have f: "feature_requests (analyze_reviews (pre @ r # post))
       = take 10 (map stored (filter is_feature_request pre)
                  @ (if is_feature_request r then [stored r] else [])
                  @ map stored (filter is_feature_request post))"
    by (simp add: analyze_lists del: take_append)
  from c c5 p p0 f show ?thesis
    unfolding st by (simp del: take_append)
qed

theorem missing_rating_contributions_witness:
  "rating \<lparr>rating = None, title = Some ''great but slow'',
           content = Some ''wish it had dark mode'', author = None, version = None\<rparr> = None
   \<and> common_complaints (analyze_reviews
        [\<lparr>rating = Some 2, title = Some ''Bad'', content = Some ''this app keeps crashing'',
           author = None, version = None\<rparr>,
         \<lparr>rating = None, title = Some ''great but slow'',
           content = Some ''wish it had dark mode'', author = None, version = None\<rparr>])
      = [''this app keeps crashing'']
   \<and> common_praises (analyze_reviews
        [\<lparr>rating = Some 2, title = Some ''Bad'', content = Some ''this app keeps crashing'',
           author = None, version = None\<rparr>,
         \<lparr>rating = None, title = Some ''great but slow'',
           content = Some ''wish it had dark mode'', author = None, version = None\<rparr>])
      = []
   \<and> feature_requests (analyze_reviews
        [\<lparr>rating = Some 2, title = Some ''Bad'', content = Some ''this app keeps crashing'',
           author = None, version = None\<rparr>,
         \<lparr>rating = None, title = Some ''great but slow'',
           content = Some ''wish it had dark mode'', author = None, version = None\<rparr>])
      = [''wish it had dark mode'']"
proof -
  let ?a = "\<lparr>rating = Some 2, title = Some ''Bad'', content = Some ''this app keeps crashing'',
           author = None, version = None\<rparr>"
  let ?r = "\<lparr>rating = None, title = Some ''great but slow'',
           content = Some ''wish it had dark mode'', author = None, version = None\<rparr>"
  have h: "rating ?r = None" by simp
  have ca: "is_complaint ?a" by code_simp
  have pa: "\<not> is_praise ?a" by code_simp
  have fa: "\<not> is_feature_request ?a" by code_simp
  have fr: "is_feature_request ?r" by code_simp
  show ?thesis
    using missing_rating_contributions [OF h, of "[?a]" "[]"] ca pa fa fr
    by (simp add: get_content_def)
qed



section \<open>The result of scrape_pricing_page\<close>

lemma set_set_add: "set (set_add slot tbl x) = insert x (set tbl)"
proof -
  have "set (take n tbl) \<union> set (drop n tbl) = set tbl" for n
    by (metis append_take_drop_id set_append)
  then show ?thesis
    by (auto simp: set_add_def)
qed

lemma distinct_set_add: "distinct tbl \<Longrightarrow> distinct (set_add slot tbl x)"
proof -
  assume d: "distinct tbl"
  have disj: "set (take n tbl) \<inter> set (drop n tbl) = {}" for n
    using d by (metis append_take_drop_id distinct_append)
  have sub: "set (take n tbl) \<subseteq> set tbl" "set (drop n tbl) \<subseteq> set tbl" for n
    by (auto dest: in_set_takeD in_set_dropD)
  show ?thesis
    using d disj [of "slot x tbl"] sub [of "slot x tbl"]
    by (auto simp: set_add_def)
qed

lemma foldl_set_add:
  "distinct tbl \<Longrightarrow>
     distinct (foldl (set_add slot) tbl xs) \<and> set (foldl (set_add slot) tbl xs) = set tbl \<union> set xs"
  by (induction xs arbitrary: tbl) (auto simp: distinct_set_add set_set_add)

lemma list_of_set_props:
  "distinct (list_of_set slot xs)" "set (list_of_set slot xs) = set xs"
  using foldl_set_add [of "[]" slot xs] by (simp_all add: list_of_set_def)

text \<open>
  C8. Whatever the page, the tokenizer and the iteration order of the set: the
  \<open>prices_found\<close> of a result with \<open>success\<close> true has no string twice, and holds
  exactly the strings of the tag-based and of the regex extraction.
\<close>

theorem prices_found_distinct:
  assumes "map_of (scrape_pricing_page fetch tokenize slot url) ''success'' = Some (VBool True)"
    and "map_of (scrape_pricing_page fetch tokenize slot url) ''prices_found'' = Some (VList ps)"
  shows "distinct ps
    \<and> (\<exists>html p. fetch url = Inr html \<and> feed_html tokenize html = Inr p
         \<and> set ps = set (prices p) \<union> set (regex_loop price_patterns html []))"
  using assms
  by (auto simp: scrape_pricing_page_def failure_def Let_def list_of_set_props
      split: sum.splits)

theorem prices_found_distinct_witness:
  "map_of (scrape_pricing_page (\<lambda>u. Inr ''FREE or free, $5 now: FREE'')
             (\<lambda>h. (nested_markup, None)) (\<lambda>x tbl. 1) ''u'')
      ''success'' = Some (VBool True)
   \<and> map_of (scrape_pricing_page (\<lambda>u. Inr ''FREE or free, $5 now: FREE'')
             (\<lambda>h. (nested_markup, None)) (\<lambda>x tbl. 1) ''u'')
      ''prices_found'' = Some (VList [''$10'', ''free'', ''FREE'', ''$5''])
   \<and> distinct [''$10'', ''free'', ''FREE'', ''$5'']"
proof -
  let ?R = "scrape_pricing_page (\<lambda>u. Inr ''FREE or free, $5 now: FREE'')
              (\<lambda>h. (nested_markup, None)) (\<lambda>x tbl. 1) ''u''"
  have a: "map_of ?R ''success'' = Some (VBool True)" by code_simp
  have b: "map_of ?R ''prices_found'' = Some (VList [''$10'', ''free'', ''FREE'', ''$5''])"
    by code_simp
  from prices_found_distinct [OF a b] a b show ?thesis by blast
qed

text \<open>
  C3, as the specification states it, fails: the result of a failed fetch has no
  \<open>raw_html_length\<close>.
\<close>

theorem failure_lacks_raw_html_length:
  "''raw_html_length'' \<notin> fst ` set (scrape_pricing_page
      (\<lambda>u. Inl (FetchError ''timed out'')) (\<lambda>h. ([], None)) (\<lambda>x tbl. 0)
      ''https://gc.com/pricing'')"
  by (simp add: scrape_pricing_page_def failure_def)

text \<open>
  C3, amended. Every result has the keys \<open>url\<close>, \<open>prices_found\<close> and \<open>success\<close>. A result
  with \<open>success\<close> true has \<open>raw_html_length\<close> besides and no \<open>error\<close>; a result with
  \<open>success\<close> false has \<open>error\<close> besides and no \<open>raw_html_length\<close>.
\<close>

theorem result_fields:
  "(map fst (scrape_pricing_page fetch tokenize slot url)
       = [''url'', ''prices_found'', ''raw_html_length'', ''success'']
     \<and> map_of (scrape_pricing_page fetch tokenize slot url) ''success'' = Some (VBool True))
   \<or> (map fst (scrape_pricing_page fetch tokenize slot url)
       = [''url'', ''prices_found'', ''error'', ''success'']
     \<and> map_of (scrape_pricing_page fetch tokenize slot url) ''success'' = Some (VBool False))"
  by (simp add: scrape_pricing_page_def failure_def Let_def split: sum.splits)

text \<open>
  C4, as the specification states it, fails: the \<open>error\<close> of a failed fetch is the string
  of the exception and nothing more, so it is empty when the exception has no message
  (\<open>str(MemoryError())\<close> and \<open>str(TimeoutError())\<close> are empty).
\<close>

theorem fetch_failure_empty_error:
  "map_of (scrape_pricing_page (\<lambda>u. Inl (FetchError [])) (\<lambda>h. ([], None)) (\<lambda>x tbl. 0)
            ''https://gc.com/pricing'') ''error'' = Some (VStr [])"
  by (simp add: scrape_pricing_page_def failure_def)

text \<open>
  C4, amended. When the fetch raises, or \<open>feed\<close> raises (the library itself or a
  handler), the result is the failure record: \<open>success\<close> false, no prices, and as \<open>error\<close>
  the string of the exception, empty exactly when that string is empty.
\<close>

theorem exception_gives_failure:
  assumes "fetch url = Inl e
     \<or> (\<exists>html. fetch url = Inr html \<and> feed_html tokenize html = Inl e)"
  shows "scrape_pricing_page fetch tokenize slot url
       = [(''url'', VStr url), (''prices_found'', VList []),
          (''error'', VStr (str_exn e)), (''success'', VBool False)]
     \<and> (map_of (scrape_pricing_page fetch tokenize slot url) ''error'' = Some (VStr [])
          \<longleftrightarrow> str_exn e = [])"
  using assms by (auto simp: scrape_pricing_page_def failure_def)

theorem exception_gives_failure_witness:
  "scrape_pricing_page (\<lambda>u. Inl (FetchError ''<urlopen error timed out>''))
       (\<lambda>h. ([], None)) (\<lambda>x tbl. 0) ''https://gc.com/pricing''
     = [(''url'', VStr ''https://gc.com/pricing''), (''prices_found'', VList []),
        (''error'', VStr ''<urlopen error timed out>''), (''success'', VBool False)]
   \<and> scrape_pricing_page (\<lambda>u. Inr ''<div class>$5</div>'')
       (\<lambda>h. ([StartTag ''div'' [(''class'', None)], Data ''$5'', EndTag ''div''], None))
       (\<lambda>x tbl. 0) ''https://gc.com/pricing''
     = [(''url'', VStr ''https://gc.com/pricing''), (''prices_found'', VList []),
        (''error'', VStr none_lower_msg), (''success'', VBool False)]
   \<and> scrape_pricing_page (\<lambda>u. Inr ''<b class=price>$1</b><![foo[bar]]>$5'')
       (\<lambda>h. ([StartTag ''b'' [(''class'', Some ''price'')], Data ''$1'', EndTag ''b''],
             Some (FeedError marked_section_msg)))
       (\<lambda>x tbl. 0) ''https://gc.com/pricing''
     = [(''url'', VStr ''https://gc.com/pricing''), (''prices_found'', VList []),
        (''error'', VStr marked_section_msg),
        (''success'', VBool False)]"
proof -
  have handler: "feed_html
       (\<lambda>h. ([StartTag ''div'' [(''class'', None)], Data ''$5'', EndTag ''div''], None))
       ''<div class>$5</div>''
      = Inl (AttributeError none_lower_msg)"
    by (simp add: feed_html_def handle_starttag_def attrs_get_def)
  have library: "feed_html
       (\<lambda>h. ([StartTag ''b'' [(''class'', Some ''price'')], Data ''$1'', EndTag ''b''],
             Some (FeedError marked_section_msg)))
       ''<b class=price>$1</b><![foo[bar]]>$5''
      = Inl (FeedError marked_section_msg)"
    by code_simp
  have first: "scrape_pricing_page (\<lambda>u. Inl (FetchError ''<urlopen error timed out>''))
       (\<lambda>h. ([], None)) (\<lambda>x tbl. 0) ''https://gc.com/pricing''
     = [(''url'', VStr ''https://gc.com/pricing''), (''prices_found'', VList []),
        (''error'', VStr ''<urlopen error timed out>''), (''success'', VBool False)]"
    using exception_gives_failure
      [of "\<lambda>u. Inl (FetchError ''<urlopen error timed out>'')" "''https://gc.com/pricing''"
        "FetchError ''<urlopen error timed out>''" "\<lambda>h. ([], None)" "\<lambda>x tbl. 0"]
    by simp
  have second: "scrape_pricing_page (\<lambda>u. Inr ''<div class>$5</div>'')
       (\<lambda>h. ([StartTag ''div'' [(''class'', None)], Data ''$5'', EndTag ''div''], None))
       (\<lambda>x tbl. 0) ''https://gc.com/pricing''
     = [(''url'', VStr ''https://gc.com/pricing''), (''prices_found'', VList []),
        (''error'', VStr none_lower_msg), (''success'', VBool False)]"
    using handler exception_gives_failure
      [of "\<lambda>u. Inr ''<div class>$5</div>''" "''https://gc.com/pricing''"
        "AttributeError none_lower_msg"
        "\<lambda>h. ([StartTag ''div'' [(''class'', None)], Data ''$5'', EndTag ''div''], None)"
        "\<lambda>x tbl. 0"]
    by simp
  have third: "scrape_pricing_page (\<lambda>u. Inr ''<b class=price>$1</b><![foo[bar]]>$5'')
       (\<lambda>h. ([StartTag ''b'' [(''class'', Some ''price'')], Data ''$1'', EndTag ''b''],
             Some (FeedError marked_section_msg)))
       (\<lambda>x tbl. 0) ''https://gc.com/pricing''
     = [(''url'', VStr ''https://gc.com/pricing''), (''prices_found'', VList []),
        (''error'', VStr marked_section_msg),
        (''success'', VBool False)]"
    using library exception_gives_failure
      [of "\<lambda>u. Inr ''<b class=price>$1</b><![foo[bar]]>$5''" "''https://gc.com/pricing''"
        "FeedError marked_section_msg"
        "\<lambda>h. ([StartTag ''b'' [(''class'', Some ''price'')], Data ''$1'', EndTag ''b''],
             Some (FeedError marked_section_msg))"
        "\<lambda>x tbl. 0"]
    by simp
  from first second third show ?thesis by blast
qed

section \<open>Exceptions while the feed entries are normalized\<close>

lemma normalize_loop_raises:
  "entry \<in> set es \<Longrightarrow> has_content entry \<Longrightarrow> normalize max_digits entry = Inl e
    \<Longrightarrow> \<exists>e'. normalize_loop max_digits es acc = Inl e'"
proof (induction es arbitrary: acc)
  case Nil
  then show ?case by simp
next
  case (Cons x xs)
  show ?case
  proof (cases "x = entry")
    case True
    with Cons.prems show ?thesis by simp
  next
    case False
    with Cons.prems have "entry \<in> set xs" by simp
    from Cons.IH [OF this Cons.prems(2,3)] show ?thesis
      by (simp split: sum.splits)
  qed
qed

text \<open>
  C9. When the feed loads and one of the entries the loop visits (one of the first
  \<open>count\<close>) raises while its review is built, \<open>scrape_apple_reviews\<close> returns the empty
  list, whatever the entries before it gave.
\<close>

theorem normalization_all_or_nothing:
  assumes "load (feed_url country app_id) = Inr data"
    and "feed_entries data = Inr entries"
    and "sliced_entries entries count = Inr es"
    and "entry \<in> set es" and "has_content entry" and "normalize max_digits entry = Inl e"
  shows "scrape_apple_reviews max_digits load app_id country count = []"
proof -
  from normalize_loop_raises [OF assms(4-6)]
  obtain e' where "normalize_loop max_digits es [] = Inl e'"
    by blast
  with assms(1-3) show ?thesis
    by (simp add: scrape_apple_reviews_def scrape_body_def bind_def)
qed

theorem normalization_all_or_nothing_witness:
  "scrape_apple_reviews 4300
     (\<lambda>u. Inr (JObj [(''feed'', JObj [(''entry'', JArr
        [JObj [(''content'', JObj [(''label'', JStr ''Love it'')]),
               (''im:rating'', JObj [(''label'', JStr ''5'')])],
         JObj [(''content'', JObj [(''label'', JStr ''Crashes'')]),
               (''im:rating'', JObj [(''label'', JStr ''five'')])]])])]))
     ''393048976'' ''us'' 50 = []
   \<and> scrape_apple_reviews 4300
     (\<lambda>u. Inr (JObj [(''feed'', JObj [(''entry'', JArr
        [JObj [(''content'', JObj [(''label'', JStr ''Love it'')]),
               (''im:rating'', JObj [(''label'', JStr ''5'')])],
         JObj [(''content'', JObj [(''label'', JStr ''Crashes'')]),
               (''im:rating'', JObj [(''label'', JStr ''five'')])]])])]))
     ''393048976'' ''us'' 1
     = [JObj [(''rating'', JInt 5), (''title'', JStr []), (''content'', JStr ''Love it''),
              (''author'', JStr []), (''version'', JStr [])]]"
proof -
  let ?good = "JObj [(''content'', JObj [(''label'', JStr ''Love it'')]),
               (''im:rating'', JObj [(''label'', JStr ''5'')])]"
  let ?bad = "JObj [(''content'', JObj [(''label'', JStr ''Crashes'')]),
               (''im:rating'', JObj [(''label'', JStr ''five'')])]"
  let ?data = "JObj [(''feed'', JObj [(''entry'', JArr [?good, ?bad])])]"
  have h1: "(\<lambda>u. Inr ?data) (feed_url ''us'' ''393048976'') = (Inr ?data :: review_exn + json)"
    by simp
  have h2: "feed_entries ?data = Inr (JArr [?good, ?bad])"
    by (simp add: feed_entries_def bind_def)
  have h3: "sliced_entries (JArr [?good, ?bad]) 50 = Inr [?good, ?bad]"
    by (simp add: slice_to_def)
  have h4: "?bad \<in> set [?good, ?bad]" by simp
  have h5: "has_content ?bad" by simp
  have h6: "normalize 4300 ?bad = Inl Value_Error" by code_simp
  have one: "scrape_apple_reviews 4300 (\<lambda>u. Inr ?data) ''393048976'' ''us'' 1
     = [JObj [(''rating'', JInt 5), (''title'', JStr []), (''content'', JStr ''Love it''),
              (''author'', JStr []), (''version'', JStr [])]]"
    by code_simp
  from normalization_all_or_nothing [OF h1 h2 h3 h4 h5 h6] one show ?thesis by blast
qed

end
